theory Spec2Isabelle
  imports Complex_Main
begin

section \<open>JavaScript values and number formatting\<close>

text \<open>
  JavaScript numbers are modelled as exact rationals: IEEE rounding, NaN and the infinities
  are outside the model. The scalar price fields of a JSON request body are absent, a number
  or a string; the distinction matters because the controller compares with \<open>!==\<close> and
  chooses defaults with \<open>||\<close>.
\<close>

type_synonym number = rat

datatype jsval = JUndefined | JNum number | JStr string

text \<open>ToBoolean: \<open>undefined\<close>, \<open>0\<close> and the empty string are falsy.\<close>

fun truthy :: "jsval \<Rightarrow> bool" where
  "truthy JUndefined = False"
| "truthy (JNum n) = (n \<noteq> 0)"
| "truthy (JStr s) = (s \<noteq> [])"

text \<open>\<open>a || b\<close>\<close>

definition js_or :: "jsval \<Rightarrow> jsval \<Rightarrow> jsval" where
  "js_or a b = (if truthy a then a else b)"

text \<open>\<open>a || b\<close> on a string-valued property that may be absent, with a string default.\<close>

definition str_or :: "string option \<Rightarrow> string \<Rightarrow> string" where
  "str_or a b = (case a of None \<Rightarrow> b | Some v \<Rightarrow> if v = [] then b else v)"

definition digit_char :: "nat \<Rightarrow> char" where
  "digit_char d = ''0123456789'' ! d"

text \<open>\<open>n.toString()\<close> for a non-negative integer.\<close>

function show_nat :: "nat \<Rightarrow> string" where
  "show_nat n =
     (if n < 10 then [digit_char n] else show_nat (n div 10) @ [digit_char (n mod 10)])"
  by pat_completeness auto
termination
  by (relation "measure id") auto

declare show_nat.simps [simp del]

text \<open>\<open>s.padStart(6, '0')\<close>\<close>

definition padStart6 :: "string \<Rightarrow> string" where
  "padStart6 s = replicate (6 - length s) (CHR ''0'') @ s"

text \<open>
  \<open>x.toFixed(2)\<close>: the sign is split off, the magnitude is rounded to the nearest
  hundredth (the larger candidate on a tie) and printed with two decimals. The result is a
  string. Magnitudes of \<open>10^21\<close> and above, which JavaScript prints in exponent form,
  are outside the model.
\<close>

definition hundredths :: "number \<Rightarrow> nat" where
  "hundredths x = nat \<lfloor>\<bar>x\<bar> * 100 + 1 / 2\<rfloor>"

definition toFixed2 :: "number \<Rightarrow> string" where
  "toFixed2 x =
     (if x < 0 then ''-'' else '''') @ show_nat (hundredths x div 100) @ ''.'' @
     [digit_char (hundredths x mod 100 div 10), digit_char (hundredths x mod 10)]"

text \<open>\<open>Number(x.toFixed(2))\<close>: the number that the two-decimal string denotes.\<close>

definition round2 :: "number \<Rightarrow> number" where
  "round2 x = (if x < 0 then - 1 else 1) * of_nat (hundredths x) / 100"

section \<open>Documents\<close>

text \<open>
  Each schema is a record. Identifiers (\<open>ObjectId\<close>) are strings, dates are natural
  numbers. A path that may be unset is an \<open>option\<close>.
\<close>

record product_doc =
  p_name :: string
  p_price :: number
  p_images :: "string list"    \<comment> \<open>the \<open>url\<close> of each entry of \<open>images\<close>\<close>
  p_stock :: number

record cart_item =
  ci_product :: string
  ci_name :: string
  ci_price :: number
  ci_image :: string
  ci_quantity :: number

record cart_doc =
  c_user :: string
  c_items :: "cart_item list"
  c_updatedAt :: nat

record order_item =
  oi_product :: string
  oi_name :: string
  oi_quantity :: number
  oi_image :: string
  oi_price :: number

record shipping_info =
  si_address :: string
  si_city :: string
  si_state :: string
  si_country :: string
  si_postalCode :: string
  si_phone :: string

record payment_info =
  pi_id :: string
  pi_status :: string
  pi_update_time :: string
  pi_email_address :: string

record tracking_update =
  t_date :: nat
  t_status :: string
  t_location :: string
  t_details :: string

text \<open>
  The order document. The fields prefixed \<open>o_\<close> are the paths of \<open>orderSchema\<close>.
  The three fields prefixed \<open>x_\<close> are properties that the controllers read or assign on
  the in-memory document but that the schema does not declare (\<open>paymentResult\<close>,
  \<open>isDelivered\<close>, \<open>shippingAddress\<close>): the schema is strict, so they are never
  stored and a document loaded from the collection does not carry them.
\<close>

record order_doc =
  o_id :: string
  o_orderNumber :: "string option"
  o_user :: string
  o_orderItems :: "order_item list"
  o_shippingInfo :: "shipping_info option"
  o_paymentInfo :: "payment_info option"
  o_itemsPrice :: number
  o_taxPrice :: number
  o_shippingPrice :: number
  o_totalPrice :: number
  o_orderStatus :: string
  o_deliveredAt :: "nat option"
  o_trackingNumber :: string
  o_trackingUpdates :: "tracking_update list"
  o_isPaid :: bool
  o_paidAt :: "nat option"
  o_createdAt :: nat
  x_paymentResult :: "payment_info option"
  x_isDelivered :: bool
  x_shippingAddress :: "shipping_info option"

text \<open>
  The database: products by id, carts by user (the \<open>user\<close> index is unique), orders as
  the list of stored documents in insertion order.
\<close>

record store =
  products :: "string \<rightharpoonup> product_doc"
  carts :: "string \<rightharpoonup> cart_doc"
  orders :: "order_doc list"

text \<open>The authenticated user of a request (\<open>req.user\<close>).\<close>

record req_user =
  u_id :: string
  u_role :: string
  u_email :: string

text \<open>
  What a request takes from its environment: the clock (one reading per request), the
  identifier of a newly constructed document, \<open>uuidv4()\<close> and
  \<open>new Date().toISOString()\<close>.
\<close>

record env =
  e_now :: nat
  e_new_id :: string
  e_uuid :: string
  e_now_iso :: string

text \<open>
  Errors are values: \<open>ErrorResponse\<close> carries message and status code as the class of
  that name does, \<open>Error\<close> is a plain \<open>throw new Error(msg)\<close>, \<open>TypeError\<close> is a
  property read on \<open>undefined\<close> or a call of a missing method, \<open>ValidationError\<close> is
  what \<open>save()\<close> rejects with when a schema validator fails, \<open>DuplicateKey\<close> is a
  violated unique index.
\<close>

datatype error =
    ErrorResponse string nat
  | Error string
  | TypeError
  | ValidationError
  | DuplicateKey

section \<open>Cart model (models/Cart.js)\<close>

text \<open>
  The validators of \<open>cartItemSchema\<close>: \<open>name\<close> and \<open>image\<close> are required strings
  (the empty string does not satisfy \<open>required\<close>), \<open>quantity\<close> has \<open>min: 1\<close>.
\<close>

definition validate_cart_item :: "cart_item \<Rightarrow> bool" where
  "validate_cart_item i = (ci_name i \<noteq> [] \<and> ci_image i \<noteq> [] \<and> 1 \<le> ci_quantity i)"

definition validate_cart :: "cart_doc \<Rightarrow> bool" where
  "validate_cart c = list_all validate_cart_item (c_items c)"

text \<open>
  \<open>cart.save()\<close>: validation runs first; the \<open>pre('save')\<close> hook then stamps
  \<open>updatedAt\<close>; the document is written under its user.
\<close>

definition save_cart :: "nat \<Rightarrow> store \<Rightarrow> cart_doc \<Rightarrow> store \<times> (error + cart_doc)" where
  "save_cart now s c =
     (if \<not> validate_cart c then (s, Inl ValidationError)
      else let c' = c\<lparr>c_updatedAt := now\<rparr>
           in (s\<lparr>carts := (carts s)(c_user c \<mapsto> c')\<rparr>, Inr c'))"



text \<open>\<open>Array.prototype.findIndex\<close>; \<open>None\<close> stands for the result \<open>-1\<close>.\<close>

fun findIndex :: "('a \<Rightarrow> bool) \<Rightarrow> 'a list \<Rightarrow> nat option" where
  "findIndex P [] = None"
| "findIndex P (x # xs) = (if P x then Some 0 else map_option Suc (findIndex P xs))"

text \<open>\<open>product.images[0]?.url || ''\<close>\<close>

definition first_image_url :: "product_doc \<Rightarrow> string" where
  "first_image_url p = (case p_images p of [] \<Rightarrow> [] | u # _ \<Rightarrow> u)"

text \<open>
  \<open>addItem(productId, quantity = 1)\<close>; a call without a quantity is the call with 1.
  The line item's \<open>product\<close> is the ObjectId that the schema declares, so
  \<open>item.product.toString() === productId\<close> is equality of ids. A cart whose references
  have been replaced by populated product documents is not modelled.
\<close>

definition addItem ::
  "nat \<Rightarrow> store \<Rightarrow> cart_doc \<Rightarrow> string \<Rightarrow> number \<Rightarrow> store \<times> (error + cart_doc)" where
  "addItem now s c productId quantity =
     (case products s productId of
        None \<Rightarrow> (s, Inl (Error ''Product not found''))
      | Some product \<Rightarrow>
          if p_stock product < quantity then (s, Inl (Error ''Not enough stock available''))
          else
            (case findIndex (\<lambda>item. ci_product item = productId) (c_items c) of
               Some itemIndex \<Rightarrow>
                 save_cart now s
                   (c\<lparr>c_items := (c_items c)
                        [itemIndex := (c_items c ! itemIndex)
                           \<lparr>ci_quantity := ci_quantity (c_items c ! itemIndex) + quantity\<rparr>]\<rparr>)
             | None \<Rightarrow>
                 save_cart now s
                   (c\<lparr>c_items := c_items c @
                        [\<lparr>ci_product = productId, ci_name = p_name product,
                          ci_price = p_price product, ci_image = first_image_url product,
                          ci_quantity = quantity\<rparr>]\<rparr>)))"

definition removeItem ::
  "nat \<Rightarrow> store \<Rightarrow> cart_doc \<Rightarrow> string \<Rightarrow> store \<times> (error + cart_doc)" where
  "removeItem now s c productId =
     save_cart now s (c\<lparr>c_items := filter (\<lambda>item. ci_product item \<noteq> productId) (c_items c)\<rparr>)"

text \<open>
  \<open>updateItemQuantity\<close>: \<open>find\<close> returns the first matching item, which is then
  assigned in place.
\<close>

definition updateItemQuantity ::
  "nat \<Rightarrow> store \<Rightarrow> cart_doc \<Rightarrow> string \<Rightarrow> number \<Rightarrow> store \<times> (error + cart_doc)" where
  "updateItemQuantity now s c productId quantity =
     (if quantity < 1 then removeItem now s c productId
      else
        (case findIndex (\<lambda>item. ci_product item = productId) (c_items c) of
           Some i \<Rightarrow>
             save_cart now s
               (c\<lparr>c_items := (c_items c)[i := (c_items c ! i)\<lparr>ci_quantity := quantity\<rparr>]\<rparr>)
         | None \<Rightarrow> save_cart now s c))"

definition clearCart :: "nat \<Rightarrow> store \<Rightarrow> cart_doc \<Rightarrow> store \<times> (error + cart_doc)" where
  "clearCart now s c = save_cart now s (c\<lparr>c_items := []\<rparr>)"

section \<open>Order model (models/Order.js)\<close>

text \<open>
  The validators that \<open>orderSchema\<close> and its sub-schemas declare. A required string is
  set and not empty; \<open>quantity\<close> has \<open>min: 1\<close>; \<open>orderStatus\<close> and the
  \<open>status\<close> of a tracking update are restricted to their enumerations; the fields of
  \<open>shippingInfo\<close> and \<open>paymentInfo\<close> are required only when the sub-document is
  present.
\<close>

definition order_status_enum :: "string list" where
  "order_status_enum = [''Processing'', ''Shipped'', ''Delivered'', ''Cancelled'', ''Returned'']"

definition tracking_status_enum :: "string list" where
  "tracking_status_enum =
     [''Order Placed'', ''Processing'', ''Shipped'', ''In Transit'', ''Out for Delivery'',
      ''Delivered'', ''Cancelled'', ''Returned'']"

definition validate_order_item :: "order_item \<Rightarrow> bool" where
  "validate_order_item i = (oi_name i \<noteq> [] \<and> 1 \<le> oi_quantity i \<and> oi_image i \<noteq> [])"

definition validate_shipping_info :: "shipping_info \<Rightarrow> bool" where
  "validate_shipping_info a =
     (si_address a \<noteq> [] \<and> si_city a \<noteq> [] \<and> si_state a \<noteq> [] \<and> si_country a \<noteq> [] \<and>
      si_postalCode a \<noteq> [] \<and> si_phone a \<noteq> [])"

definition validate_payment_info :: "payment_info \<Rightarrow> bool" where
  "validate_payment_info p =
     (pi_id p \<noteq> [] \<and> pi_status p \<noteq> [] \<and> pi_update_time p \<noteq> [] \<and> pi_email_address p \<noteq> [])"

definition validate_tracking_update :: "tracking_update \<Rightarrow> bool" where
  "validate_tracking_update t =
     (t_status t \<in> set tracking_status_enum \<and> t_location t \<noteq> [] \<and> t_details t \<noteq> [])"

definition validate_order :: "order_doc \<Rightarrow> bool" where
  "validate_order d =
     ((case o_orderNumber d of None \<Rightarrow> False | Some n \<Rightarrow> n \<noteq> []) \<and>
      list_all validate_order_item (o_orderItems d) \<and>
      (case o_shippingInfo d of None \<Rightarrow> True | Some a \<Rightarrow> validate_shipping_info a) \<and>
      (case o_paymentInfo d of None \<Rightarrow> True | Some p \<Rightarrow> validate_payment_info p) \<and>
      o_orderStatus d \<in> set order_status_enum \<and>
      list_all validate_tracking_update (o_trackingUpdates d))"

text \<open>
  The bulk write of the stock hook: one \<open>updateOne\<close> per order item, in order, each
  adding \<open>-item.quantity\<close> to the stock of the product with that id; an id that matches
  no product updates nothing.
\<close>

definition inc_stock :: "(string \<rightharpoonup> product_doc) \<Rightarrow> order_item \<Rightarrow> (string \<rightharpoonup> product_doc)" where
  "inc_stock ps item =
     (case ps (oi_product item) of
        None \<Rightarrow> ps
      | Some p \<Rightarrow> ps(oi_product item \<mapsto> p\<lparr>p_stock := p_stock p + (- oi_quantity item)\<rparr>))"

definition bulkWrite :: "order_item list \<Rightarrow> (string \<rightharpoonup> product_doc) \<Rightarrow> (string \<rightharpoonup> product_doc)" where
  "bulkWrite items ps = foldl inc_stock ps items"

text \<open>What is stored of a document, and what a loaded document carries: the schema paths.\<close>

definition schema_paths :: "order_doc \<Rightarrow> order_doc" where
  "schema_paths d = d\<lparr>x_paymentResult := None, x_isDelivered := False, x_shippingAddress := None\<rparr>"

definition findById :: "store \<Rightarrow> string \<Rightarrow> order_doc option" where
  "findById s i = map_option schema_paths (find (\<lambda>d. o_id d = i) (orders s))"

text \<open>
  Writing the document: a new one is inserted unless its \<open>orderNumber\<close> is taken (the
  path is \<open>unique\<close>); an existing one replaces the stored document of the same id.
\<close>

definition persist :: "bool \<Rightarrow> store \<Rightarrow> order_doc \<Rightarrow> store \<times> (error + order_doc)" where
  "persist isNew s d =
     (if isNew then
        (if list_ex (\<lambda>v. o_orderNumber v = o_orderNumber d) (orders s)
         then (s, Inl DuplicateKey)
         else (s\<lparr>orders := orders s @ [schema_paths d]\<rparr>, Inr d))
      else (s\<lparr>orders := map (\<lambda>v. if o_id v = o_id d then schema_paths d else v) (orders s)\<rparr>,
            Inr d))"

text \<open>
  \<open>order.save()\<close>. Mongoose validates the document before it runs the schema's own
  \<open>pre('save')\<close> hooks; the three hooks then run in the order of their declaration.
  \<open>isNew\<close> tells a constructed document from a loaded one. \<open>statusModified\<close> is the
  value of \<open>this.isModified('orderStatus')\<close>: on a loaded document the path is modified
  when it was assigned a value other than the one it had; on a constructed document it is
  modified when the constructor was given a value for it, and a path left to its schema
  default is not.

  Hook 1 assigns \<open>ORD-\<close> and the zero-padded document count plus one when
  \<open>orderNumber\<close> is unset. Hook 2 performs the bulk write when the status is modified and
  is \<open>'Processing'\<close>. Hook 3 prepends a tracking update when the status is modified; it
  reads \<open>this.shippingInfo.city\<close>, which throws when \<open>shippingInfo\<close> is unset, after the
  bulk write of hook 2 has been awaited.
\<close>

definition save_order ::
  "env \<Rightarrow> store \<Rightarrow> bool \<Rightarrow> bool \<Rightarrow> order_doc \<Rightarrow> store \<times> (error + order_doc)" where
  "save_order e s isNew statusModified d =
     (if \<not> validate_order d then (s, Inl ValidationError)
      else
        let d1 = (if (case o_orderNumber d of None \<Rightarrow> True | Some n \<Rightarrow> n = [])
                  then d\<lparr>o_orderNumber :=
                          Some (''ORD-'' @ padStart6 (show_nat (length (orders s) + 1)))\<rparr>
                  else d);
            s2 = (if statusModified \<and> o_orderStatus d1 = ''Processing''
                  then s\<lparr>products := bulkWrite (o_orderItems d1) (products s)\<rparr>
                  else s)
        in if statusModified then
             (case o_shippingInfo d1 of
                None \<Rightarrow> (s2, Inl TypeError)
              | Some a \<Rightarrow>
                  persist isNew s2
                    (d1\<lparr>o_trackingUpdates :=
                          \<lparr>t_date = e_now e, t_status = o_orderStatus d1,
                            t_location = si_city a,
                            t_details = ''Order status updated to '' @ o_orderStatus d1\<rparr>
                          # o_trackingUpdates d1\<rparr>))
           else persist isNew s2 d1)"

section \<open>Order controller (controllers/orderController.js)\<close>

subsection \<open>createOrder\<close>

text \<open>
  The body of \<open>POST /orders\<close>. A line item gives product id, quantity, unit price and,
  optionally, an image. \<open>itemsPrice\<close>, \<open>taxPrice\<close>, \<open>shippingPrice\<close> and
  \<open>totalPrice\<close> are JSON scalars. The controller also reads \<open>shippingAddress\<close> and
  \<open>paymentMethod\<close> and hands them to the \<open>Order\<close> constructor, which drops them: the
  schema has no such paths.
\<close>

record order_item_in =
  ri_product :: string
  ri_quantity :: number
  ri_price :: number
  ri_image :: "string option"

record checkout_body =
  b_orderItems :: "order_item_in list"
  b_itemsPrice :: jsval
  b_taxPrice :: jsval
  b_shippingPrice :: jsval
  b_totalPrice :: jsval

text \<open>
  \<open>Product.find({ _id: { $in: productIds } }).length\<close>: the number of distinct products
  whose id occurs among the requested ones.
\<close>

definition found_count :: "(string \<rightharpoonup> product_doc) \<Rightarrow> string list \<Rightarrow> nat" where
  "found_count ps productIds = length (remdups (filter (\<lambda>i. ps i \<noteq> None) productIds))"

text \<open>
  The loop over the order items, with its two accumulators. \<open>products.find\<close> is the
  lookup by id; reading \<open>stock\<close> of a product that was not found would throw.
\<close>

fun check_items ::
  "(string \<rightharpoonup> product_doc) \<Rightarrow> order_item_in list \<Rightarrow> number \<Rightarrow> order_item list \<Rightarrow>
   error + (number \<times> order_item list)" where
  "check_items ps [] calculatedItemsPrice orderItemsWithDetails =
     Inr (calculatedItemsPrice, orderItemsWithDetails)"
| "check_items ps (item # rest) calculatedItemsPrice orderItemsWithDetails =
     (case ps (ri_product item) of
        None \<Rightarrow> Inl TypeError
      | Some product \<Rightarrow>
          if p_stock product < ri_quantity item
          then Inl (ErrorResponse (''Not enough stock for '' @ p_name product) 400)
          else check_items ps rest
                 (calculatedItemsPrice + ri_price item * ri_quantity item)
                 (orderItemsWithDetails @
                  [\<lparr>oi_product = ri_product item, oi_name = p_name product,
                    oi_quantity = ri_quantity item,
                    oi_image = str_or (ri_image item) (first_image_url product),
                    oi_price = ri_price item\<rparr>]))"

text \<open>
  \<open>taxPrice || Number((0.15 * itemsPrice).toFixed(2))\<close> and
  \<open>shippingPrice || (itemsPrice > 100 ? 0 : 10)\<close>
\<close>

definition calculatedTaxPrice :: "jsval \<Rightarrow> number \<Rightarrow> jsval" where
  "calculatedTaxPrice taxPrice itemsPrice = js_or taxPrice (JNum (round2 (15 / 100 * itemsPrice)))"

definition calculatedShippingPrice :: "jsval \<Rightarrow> number \<Rightarrow> jsval" where
  "calculatedShippingPrice shippingPrice itemsPrice =
     js_or shippingPrice (JNum (if itemsPrice > 100 then 0 else 10))"

text \<open>
  \<open>(itemsPrice + calculatedTaxPrice + calculatedShippingPrice).toFixed(2)\<close> for three
  numbers: the two-decimal string of their sum.
\<close>

definition calculatedTotalPrice :: "number \<Rightarrow> number \<Rightarrow> number \<Rightarrow> jsval" where
  "calculatedTotalPrice itemsPrice tax shipping = JStr (toFixed2 (itemsPrice + tax + shipping))"

text \<open>
  \<open>new Order({...})\<close> as the controller calls it. \<open>orderNumber\<close>, \<open>shippingInfo\<close>
  and \<open>paymentInfo\<close> are not given; \<open>orderStatus\<close> takes its default. \<open>totalPrice\<close>
  is given the two-decimal string, which the \<open>Number\<close> path casts back to a number.
\<close>

definition new_Order ::
  "env \<Rightarrow> req_user \<Rightarrow> order_item list \<Rightarrow> number \<Rightarrow> number \<Rightarrow> number \<Rightarrow> order_doc" where
  "new_Order e user orderItemsWithDetails itemsPrice tax shipping =
     \<lparr>o_id = e_new_id e, o_orderNumber = None, o_user = u_id user,
      o_orderItems = orderItemsWithDetails, o_shippingInfo = None, o_paymentInfo = None,
      o_itemsPrice = itemsPrice, o_taxPrice = tax, o_shippingPrice = shipping,
      o_totalPrice = round2 (itemsPrice + tax + shipping),
      o_orderStatus = ''Processing'', o_deliveredAt = None, o_trackingNumber = [],
      o_trackingUpdates =
        [\<lparr>t_date = e_now e, t_status = ''Order Placed'', t_location = ''Processing Center'',
          t_details = ''Your order has been received''\<rparr>],
      o_isPaid = False, o_paidAt = None, o_createdAt = e_now e,
      x_paymentResult = None, x_isDelivered = False, x_shippingAddress = None\<rparr>"

text \<open>
  \<open>createOrder\<close>. Every \<open>return next(new ErrorResponse(...))\<close> and every exception
  (which \<open>asyncHandler\<close> passes to \<open>next\<close>) is an \<open>Inl\<close> result. After the check
  \<open>calculatedItemsPrice !== itemsPrice\<close> has passed, \<open>itemsPrice\<close> is the number
  \<open>calculatedItemsPrice\<close>. When the tax or the shipping in use is a string, \<open>+\<close>
  concatenates, the sum is a string, and a string has no \<open>toFixed\<close> method: the call
  throws. The new document is saved with \<open>orderStatus\<close> at its default, so
  \<open>isModified('orderStatus')\<close> is false.
\<close>

definition createOrder ::
  "env \<Rightarrow> store \<Rightarrow> req_user \<Rightarrow> checkout_body \<Rightarrow> store \<times> (error + order_doc)" where
  "createOrder e s user body =
     (if b_orderItems body = [] then (s, Inl (ErrorResponse ''No order items'' 400))
      else if found_count (products s) (map ri_product (b_orderItems body))
              \<noteq> length (b_orderItems body)
      then (s, Inl (ErrorResponse ''One or more products not found'' 404))
      else
        (case check_items (products s) (b_orderItems body) 0 [] of
           Inl err \<Rightarrow> (s, Inl err)
         | Inr (calculatedItemsPrice, orderItemsWithDetails) \<Rightarrow>
             if JNum calculatedItemsPrice \<noteq> b_itemsPrice body
             then (s, Inl (ErrorResponse ''Cart items have been updated'' 400))
             else
               (case calculatedTaxPrice (b_taxPrice body) calculatedItemsPrice of
                  JNum tax \<Rightarrow>
                    (case calculatedShippingPrice (b_shippingPrice body) calculatedItemsPrice of
                       JNum shipping \<Rightarrow>
                         if calculatedTotalPrice calculatedItemsPrice tax shipping
                            \<noteq> b_totalPrice body
                         then (s, Inl (ErrorResponse ''Order total does not match'' 400))
                         else
                           (case save_order e s True False
                                   (new_Order e user orderItemsWithDetails
                                      calculatedItemsPrice tax shipping) of
                              (s1, Inl err) \<Rightarrow> (s1, Inl err)
                            | (s1, Inr createdOrder) \<Rightarrow>
                                (case carts s1 (u_id user) of
                                   None \<Rightarrow> (s1, Inr createdOrder)
                                 | Some cart \<Rightarrow>
                                     (case clearCart (e_now e) s1 cart of
                                        (s2, Inl err) \<Rightarrow> (s2, Inl err)
                                      | (s2, Inr _) \<Rightarrow> (s2, Inr createdOrder))))
                     | _ \<Rightarrow> (s, Inl TypeError))
                | _ \<Rightarrow> (s, Inl TypeError))))"

subsection \<open>updateOrderToPaid, updateOrderToDelivered, updateOrderStatus\<close>

text \<open>The body of \<open>PUT /orders/:id/pay\<close>: four optional strings.\<close>

record pay_body =
  pb_id :: "string option"
  pb_status :: "string option"
  pb_update_time :: "string option"
  pb_email_address :: "string option"

text \<open>
  \<open>updateOrderToPaid\<close>. The confirmation record is assigned to \<open>order.paymentResult\<close>.
  \<open>orderStatus\<close> is not assigned, so the save finds it unmodified.
\<close>

definition updateOrderToPaid ::
  "env \<Rightarrow> store \<Rightarrow> req_user \<Rightarrow> string \<Rightarrow> pay_body \<Rightarrow> store \<times> (error + order_doc)" where
  "updateOrderToPaid e s user i body =
     (case findById s i of
        None \<Rightarrow> (s, Inl (ErrorResponse ''Order not found'' 404))
      | Some order \<Rightarrow>
          if o_user order \<noteq> u_id user \<and> u_role user \<noteq> ''admin''
          then (s, Inl (ErrorResponse ''Not authorized to update this order'' 401))
          else
            save_order e s False False
              (order\<lparr>o_isPaid := True, o_paidAt := Some (e_now e),
                 x_paymentResult :=
                   Some \<lparr>pi_id = str_or (pb_id body) (e_uuid e),
                         pi_status = str_or (pb_status body) ''COMPLETED'',
                         pi_update_time = str_or (pb_update_time body) (e_now_iso e),
                         pi_email_address = str_or (pb_email_address body) (u_email user)\<rparr>,
                 o_trackingUpdates :=
                   \<lparr>t_date = e_now e, t_status = ''Processing'',
                     t_location = ''Processing Center'',
                     t_details = ''Payment received. Preparing for shipment.''\<rparr>
                   # o_trackingUpdates order\<rparr>))"

text \<open>
  \<open>updateOrderToDelivered\<close>. The tracking update reads \<open>order.shippingAddress.city\<close>;
  the read throws when \<open>shippingAddress\<close> is undefined, before the save.
\<close>

definition updateOrderToDelivered ::
  "env \<Rightarrow> store \<Rightarrow> string \<Rightarrow> store \<times> (error + order_doc)" where
  "updateOrderToDelivered e s i =
     (case findById s i of
        None \<Rightarrow> (s, Inl (ErrorResponse ''Order not found'' 404))
      | Some order \<Rightarrow>
          let order1 = order\<lparr>x_isDelivered := True, o_deliveredAt := Some (e_now e),
                              o_orderStatus := ''Delivered''\<rparr>
          in (case x_shippingAddress order1 of
                None \<Rightarrow> (s, Inl TypeError)
              | Some a \<Rightarrow>
                  save_order e s False (o_orderStatus order \<noteq> ''Delivered'')
                    (order1\<lparr>o_trackingUpdates :=
                       \<lparr>t_date = e_now e, t_status = ''Delivered'', t_location = si_city a,
                         t_details = ''Your order has been delivered successfully.''\<rparr>
                       # o_trackingUpdates order1\<rparr>)))"

text \<open>The body of \<open>PUT /orders/:id/status\<close>.\<close>

record status_body =
  sb_status :: "string option"
  sb_trackingNumber :: "string option"
  sb_location :: "string option"
  sb_details :: "string option"

text \<open>
  \<open>updateOrderStatus\<close>. The controller assigns \<open>orderStatus\<close> and prepends its own
  tracking update; the save finds \<open>orderStatus\<close> modified when the new status differs
  from the stored one.
\<close>

definition updateOrderStatus ::
  "env \<Rightarrow> store \<Rightarrow> string \<Rightarrow> status_body \<Rightarrow> store \<times> (error + order_doc)" where
  "updateOrderStatus e s i body =
     (case sb_status body of
        None \<Rightarrow> (s, Inl (ErrorResponse ''Status is required'' 400))
      | Some status \<Rightarrow>
          if status = [] then (s, Inl (ErrorResponse ''Status is required'' 400))
          else
            (case findById s i of
               None \<Rightarrow> (s, Inl (ErrorResponse ''Order not found'' 404))
             | Some order \<Rightarrow>
                 let order1 = order\<lparr>o_orderStatus := status\<rparr>;
                     order2 = (case sb_trackingNumber body of
                                 None \<Rightarrow> order1
                               | Some n \<Rightarrow> if n = [] then order1
                                           else order1\<lparr>o_trackingNumber := n\<rparr>)
                 in save_order e s False (status \<noteq> o_orderStatus order)
                      (order2\<lparr>o_trackingUpdates :=
                         \<lparr>t_date = e_now e, t_status = status,
                           t_location = str_or (sb_location body) ''Processing Center'',
                           t_details = str_or (sb_details body)
                                         (''Order status updated to '' @ status)\<rparr>
                         # o_trackingUpdates order2\<rparr>)))"

section \<open>The validation steps as the specification lists them\<close>


definition total_mismatch :: "checkout_body \<Rightarrow> bool" where
  "total_mismatch body =
     (case b_itemsPrice body of
        JNum ip \<Rightarrow>
          (case calculatedTaxPrice (b_taxPrice body) ip of
             JNum t \<Rightarrow>
               (case calculatedShippingPrice (b_shippingPrice body) ip of
                  JNum sh \<Rightarrow>
                    b_totalPrice body \<noteq> JNum (ip + t + sh) \<and>
                    b_totalPrice body \<noteq> JStr (toFixed2 (ip + t + sh))
                | _ \<Rightarrow> False)
           | _ \<Rightarrow> False)
      | _ \<Rightarrow> False)"


section \<open>Example data\<close>

text \<open>
  The scenario of the specification: product A costs 10.00 and has 5 in stock, the cart
  of user \<open>u1\<close> holds 3 of it. Product B has one unit left. Product T is the product of
  the repository's order test.
\<close>

definition ex_env :: env where
  "ex_env = \<lparr>e_now = 7, e_new_id = ''o9'', e_uuid = ''uuid-1'', e_now_iso = ''2024-01-01T00:00:00.000Z''\<rparr>"

definition ex_user :: req_user where
  "ex_user = \<lparr>u_id = ''u1'', u_role = ''user'', u_email = ''u1@example.com''\<rparr>"

definition ex_products :: "string \<rightharpoonup> product_doc" where
  "ex_products =
     [''A'' \<mapsto> \<lparr>p_name = ''Widget'', p_price = 10, p_images = [''a.jpg''], p_stock = 5\<rparr>,
      ''B'' \<mapsto> \<lparr>p_name = ''Gadget'', p_price = 4, p_images = [''b.jpg''], p_stock = 1\<rparr>,
      ''T'' \<mapsto> \<lparr>p_name = ''Test Product'', p_price = 9999 / 100, p_images = [''test.jpg''],
              p_stock = 10\<rparr>]"

definition ex_item_A :: cart_item where
  "ex_item_A = \<lparr>ci_product = ''A'', ci_name = ''Widget'', ci_price = 10, ci_image = ''a.jpg'',
                ci_quantity = 3\<rparr>"

definition ex_cart :: cart_doc where
  "ex_cart = \<lparr>c_user = ''u1'', c_items = [ex_item_A], c_updatedAt = 0\<rparr>"

text \<open>A stored order of user \<open>u1\<close> for 3 of product A, already shipped.\<close>

definition ex_placed :: tracking_update where
  "ex_placed = \<lparr>t_date = 1, t_status = ''Order Placed'', t_location = ''Processing Center'',
                t_details = ''Your order has been received''\<rparr>"

definition ex_order :: order_doc where
  "ex_order =
     \<lparr>o_id = ''o1'', o_orderNumber = Some ''ORD-000001'', o_user = ''u1'',
      o_orderItems = [\<lparr>oi_product = ''A'', oi_name = ''Widget'', oi_quantity = 3,
                       oi_image = ''a.jpg'', oi_price = 10\<rparr>],
      o_shippingInfo = Some \<lparr>si_address = ''1 Main St'', si_city = ''Paris'', si_state = ''IDF'',
                              si_country = ''FR'', si_postalCode = ''75001'', si_phone = ''555''\<rparr>,
      o_paymentInfo = None,
      o_itemsPrice = 30, o_taxPrice = 9 / 2, o_shippingPrice = 10, o_totalPrice = 89 / 2,
      o_orderStatus = ''Shipped'', o_deliveredAt = None, o_trackingNumber = [],
      o_trackingUpdates = [ex_placed],
      o_isPaid = False, o_paidAt = None, o_createdAt = 1,
      x_paymentResult = None, x_isDelivered = False, x_shippingAddress = None\<rparr>"

definition ex_store :: store where
  "ex_store = \<lparr>products = ex_products, carts = [''u1'' \<mapsto> ex_cart], orders = [ex_order]\<rparr>"

text \<open>
  Checkout bodies for one line of 3 of product A at 10.00: the totals of the specification's
  scenario as numbers; the same with the total as a two-decimal string; a declared
  \<open>itemsPrice\<close> of 25.00; a provided tax of 0 with the matching total.
\<close>

definition ex_line_A :: order_item_in where
  "ex_line_A = \<lparr>ri_product = ''A'', ri_quantity = 3, ri_price = 10, ri_image = None\<rparr>"

definition ex_checkout :: checkout_body where
  "ex_checkout = \<lparr>b_orderItems = [ex_line_A], b_itemsPrice = JNum 30, b_taxPrice = JNum (9 / 2),
                  b_shippingPrice = JNum 10, b_totalPrice = JNum (89 / 2)\<rparr>"

definition ex_checkout_str :: checkout_body where
  "ex_checkout_str = ex_checkout\<lparr>b_totalPrice := JStr ''44.50''\<rparr>"

definition ex_checkout_25 :: checkout_body where
  "ex_checkout_25 = ex_checkout\<lparr>b_itemsPrice := JNum 25\<rparr>"

definition ex_checkout_tax0 :: checkout_body where
  "ex_checkout_tax0 = ex_checkout\<lparr>b_taxPrice := JNum 0, b_totalPrice := JStr ''40.00''\<rparr>"

text \<open>The body that the repository's order test sends: 2 of product T, numeric totals.\<close>

definition ex_checkout_test :: checkout_body where
  "ex_checkout_test =
     \<lparr>b_orderItems = [\<lparr>ri_product = ''T'', ri_quantity = 2, ri_price = 9999 / 100,
                        ri_image = None\<rparr>],
      b_itemsPrice = JNum (9999 / 50), b_taxPrice = JNum 10, b_shippingPrice = JNum 15,
      b_totalPrice = JNum (9999 / 50 + 10 + 15)\<rparr>"

text \<open>Bodies for the status operations, and the documents they return.\<close>

definition ex_pay_body :: pay_body where
  "ex_pay_body = \<lparr>pb_id = Some ''PAYMENT_ID_123'', pb_status = Some ''COMPLETED'',
                  pb_update_time = Some ''2023-01-01T00:00:00.000Z'',
                  pb_email_address = Some ''test@example.com''\<rparr>"

definition ex_paid_entry :: tracking_update where
  "ex_paid_entry = \<lparr>t_date = 7, t_status = ''Processing'', t_location = ''Processing Center'',
                    t_details = ''Payment received. Preparing for shipment.''\<rparr>"

definition ex_order_paid :: order_doc where
  "ex_order_paid =
     ex_order\<lparr>o_isPaid := True, o_paidAt := Some 7,
        x_paymentResult := Some \<lparr>pi_id = ''PAYMENT_ID_123'', pi_status = ''COMPLETED'',
                                  pi_update_time = ''2023-01-01T00:00:00.000Z'',
                                  pi_email_address = ''test@example.com''\<rparr>,
        o_trackingUpdates := [ex_paid_entry, ex_placed]\<rparr>"

definition ex_status_body :: "string \<Rightarrow> status_body" where
  "ex_status_body status = \<lparr>sb_status = Some status, sb_trackingNumber = None,
                            sb_location = None, sb_details = None\<rparr>"

definition ex_order_delivered :: order_doc where
  "ex_order_delivered =
     ex_order\<lparr>o_orderStatus := ''Delivered'',
        o_trackingUpdates :=
          [\<lparr>t_date = 7, t_status = ''Delivered'', t_location = ''Paris'',
             t_details = ''Order status updated to Delivered''\<rparr>,
           \<lparr>t_date = 7, t_status = ''Delivered'', t_location = ''Processing Center'',
             t_details = ''Order status updated to Delivered''\<rparr>,
           ex_placed]\<rparr>"

text \<open>
  The store after the stored order is set to \<open>'Processing'\<close>, back to \<open>'Shipped'\<close>
  and to \<open>'Processing'\<close> once more.
\<close>

definition ex_store_twice :: store where
  "ex_store_twice =
     fst (updateOrderStatus ex_env
       (fst (updateOrderStatus ex_env
         (fst (updateOrderStatus ex_env ex_store ''o1'' (ex_status_body ''Processing'')))
         ''o1'' (ex_status_body ''Shipped'')))
       ''o1'' (ex_status_body ''Processing''))"

section \<open>Facts for evaluation\<close>

lemmas ex_defs = ex_env_def ex_user_def ex_products_def ex_item_A_def ex_cart_def ex_placed_def
  ex_order_def ex_store_def ex_line_A_def ex_checkout_def ex_checkout_str_def ex_checkout_25_def
  ex_checkout_tax0_def ex_checkout_test_def ex_pay_body_def ex_paid_entry_def ex_order_paid_def
  ex_status_body_def ex_order_delivered_def

lemmas fmt_defs = toFixed2_def hundredths_def round2_def show_nat.simps digit_char_def

lemmas enum_defs = order_status_enum_def tracking_status_enum_def

lemmas validate_defs = validate_order_def validate_order_item_def validate_shipping_info_def
  validate_payment_info_def validate_tracking_update_def enum_defs

lemma floor_rat_numeral_div [simp]:
  "\<lfloor>numeral a / numeral b :: rat\<rfloor> = numeral a div numeral b"
  by (metis floor_divide_of_int_eq of_int_numeral)

section \<open>Cart properties\<close>



lemma findIndex_None_iff: "findIndex P xs = None \<longleftrightarrow> (\<forall>x\<in>set xs. \<not> P x)"
  by (induction xs) auto

lemma findIndex_Some_nth: "findIndex P xs = Some i \<Longrightarrow> i < length xs \<and> P (xs ! i)"
proof (induction xs arbitrary: i)
  case Nil
  then show ?case by simp
next
  case (Cons x xs)
  then show ?case by (auto split: if_splits)
qed



lemma save_cart_Inr:
  "save_cart now s c = (s', Inr c') \<Longrightarrow>
   validate_cart c \<and> c' = c\<lparr>c_updatedAt := now\<rparr> \<and>
   s' = s\<lparr>carts := (carts s)(c_user c \<mapsto> c')\<rparr>"
  by (auto simp: save_cart_def Let_def split: if_splits)

text \<open>
  The methods keep the product ids of a cart distinct, so a cart built from the empty one
  by the methods has at most one line item per product.
\<close>

lemma addItem_keeps_distinct:
  assumes "distinct (map ci_product (c_items c))"
    and "addItem now s c pid q = (s', Inr c')"
  shows "distinct (map ci_product (c_items c'))"
proof (cases "findIndex (\<lambda>item. ci_product item = pid) (c_items c)")
  case None
  then have "pid \<notin> ci_product ` set (c_items c)"
    by (auto simp: findIndex_None_iff)
  with assms None show ?thesis
    by (auto simp: addItem_def split: option.splits if_splits dest!: save_cart_Inr)
next
  case (Some i)
  from findIndex_Some_nth[OF Some]
  have i: "i < length (c_items c)" "ci_product (c_items c ! i) = pid"
    by auto
  have "map ci_product ((c_items c)[i := (c_items c ! i)\<lparr>ci_quantity := n\<rparr>]) =
        map ci_product (c_items c)" for n
    using i by (simp add: map_update list_update_same_conv)
  with assms Some show ?thesis
    by (auto simp: addItem_def split: option.splits if_splits dest!: save_cart_Inr)
qed

lemma removeItem_keeps_distinct:
  "distinct (map ci_product (c_items c)) \<Longrightarrow> removeItem now s c pid = (s', Inr c') \<Longrightarrow>
   distinct (map ci_product (c_items c'))"
  by (auto simp: removeItem_def distinct_map_filter dest!: save_cart_Inr)



text \<open>
  C9. For every cart and product id, \<open>updateItemQuantity\<close> with a quantity below 1 (0 in
  particular) returns the result of \<open>removeItem\<close> and leaves the same store.
\<close>

theorem updateItemQuantity_below_one_is_removeItem:
  "q < 1 \<Longrightarrow> updateItemQuantity now s c pid q = removeItem now s c pid"
  by (simp add: updateItemQuantity_def)

theorem updateItemQuantity_below_one_is_removeItem_witness:
  "(0 :: number) < 1 \<and>
   updateItemQuantity 8 ex_store ex_cart ''A'' 0 = removeItem 8 ex_store ex_cart ''A'' \<and>
   snd (updateItemQuantity 8 ex_store ex_cart ''A'' 0) =
     Inr (ex_cart\<lparr>c_items := [], c_updatedAt := 8\<rparr>)"
proof -
  have h: "(0 :: number) < 1"
    by simp
  have r: "snd (removeItem 8 ex_store ex_cart ''A'') = Inr (ex_cart\<lparr>c_items := [], c_updatedAt := 8\<rparr>)"
    by (simp add: removeItem_def save_cart_def validate_cart_def ex_cart_def ex_item_A_def Let_def)
  from updateItemQuantity_below_one_is_removeItem[OF h, of 8 ex_store ex_cart "''A''"] h r
  show ?thesis
    by simp
qed

section \<open>Checkout properties\<close>






text \<open>
  The document that \<open>createOrder\<close> constructs has no \<open>orderNumber\<close>, which the schema
  requires and which only a \<open>pre('save')\<close> hook would assign: its save is rejected by
  validation, so \<open>createOrder\<close> never returns an order and never changes the store.
\<close>

lemma new_Order_invalid: "\<not> validate_order (new_Order e user items ip t sh)"
  by (simp add: validate_order_def new_Order_def)

lemma createOrder_never_creates: "\<exists>err. createOrder e s user body = (s, Inl err)"
  by (auto simp: createOrder_def save_order_def new_Order_invalid
      split: sum.splits jsval.splits prod.splits)

text \<open>
  C1. The scenario of the specification: product A (price 10.00, stock 5), a cart with 3
  of it, checkout with itemsPrice 30.00, taxPrice 4.50, shippingPrice 10 and totalPrice
  44.50. The request is to create an order in status \<open>'Processing'\<close>, take 3 off the stock
  of A and empty the cart. Evaluated on the code: the request with the numeric total is
  answered \<open>400 Order total does not match\<close>; the same request with the total as the
  string \<open>'44.50'\<close> passes the controller's checks and its save is rejected by
  validation. In both cases the store is unchanged: no order, stock 5, cart as it was.
\<close>

theorem createOrder_scenario_rejected:
  "createOrder ex_env ex_store ex_user ex_checkout =
     (ex_store, Inl (ErrorResponse ''Order total does not match'' 400)) \<and>
   createOrder ex_env ex_store ex_user ex_checkout_str = (ex_store, Inl ValidationError) \<and>
   map_option p_stock (products ex_store ''A'') = Some 5 \<and>
   carts ex_store ''u1'' = Some ex_cart \<and> c_items ex_cart = [ex_item_A]"
proof -
  have "createOrder ex_env ex_store ex_user ex_checkout =
          (ex_store, Inl (ErrorResponse ''Order total does not match'' 400))"
    by (simp add: createOrder_def found_count_def calculatedTaxPrice_def
        calculatedShippingPrice_def calculatedTotalPrice_def js_or_def ex_defs)
  moreover have "createOrder ex_env ex_store ex_user ex_checkout_str =
          (ex_store, Inl ValidationError)"
    by (simp add: createOrder_def found_count_def calculatedTaxPrice_def
        calculatedShippingPrice_def calculatedTotalPrice_def js_or_def save_order_def
        new_Order_invalid ex_defs fmt_defs)
  moreover have "map_option p_stock (products ex_store ''A'') = Some 5"
    by (simp add: ex_store_def ex_products_def)
  moreover have "carts ex_store ''u1'' = Some ex_cart \<and> c_items ex_cart = [ex_item_A]"
    by (simp add: ex_store_def ex_cart_def)
  ultimately show ?thesis
    by simp
qed

text \<open>
  C3. The total check compares the two-decimal string of itemsPrice + tax + shipping with
  the declared \<open>totalPrice\<close> by \<open>!==\<close>. A declared total that is a number never equals
  that string. The body of the repository's order test declares exactly
  itemsPrice + tax + shipping as its total and is answered
  \<open>400 Order total does not match\<close>.
\<close>

theorem createOrder_rejects_matching_numeric_total:
  "calculatedTotalPrice itemsPrice tax shipping \<noteq> JNum declared \<and>
   \<not> total_mismatch ex_checkout_test \<and>
   createOrder ex_env ex_store ex_user ex_checkout_test =
     (ex_store, Inl (ErrorResponse ''Order total does not match'' 400))"
  by (simp add: createOrder_def found_count_def calculatedTaxPrice_def calculatedShippingPrice_def
      calculatedTotalPrice_def js_or_def total_mismatch_def ex_defs)

text \<open>
  C8. A provided \<open>taxPrice\<close> of 0 and a provided \<open>shippingPrice\<close> of 0 are falsy, so the
  defaults are used in their place: for itemsPrice 30 the tax in use is 4.50 and the
  shipping in use is 10. The checkout that declares tax 0 and the total
  30 + 0 + 10 = \<open>'40.00'\<close> is answered \<open>400 Order total does not match\<close>.
\<close>

theorem provided_zero_is_replaced_by_default:
  "calculatedTaxPrice (JNum 0) 30 = JNum (9 / 2) \<and>
   calculatedShippingPrice (JNum 0) 30 = JNum 10 \<and>
   createOrder ex_env ex_store ex_user ex_checkout_tax0 =
     (ex_store, Inl (ErrorResponse ''Order total does not match'' 400))"
  by (simp add: createOrder_def found_count_def calculatedTaxPrice_def calculatedShippingPrice_def
      calculatedTotalPrice_def js_or_def ex_defs fmt_defs)

section \<open>Order status properties\<close>

lemma validate_order_schema_paths [simp]: "validate_order (schema_paths d) = validate_order d"
  by (simp add: validate_order_def schema_paths_def)

lemma persist_products [simp]: "products (fst (persist isNew s d)) = products s"
  by (simp add: persist_def)


lemma save_order_products:
  "products (fst (save_order e s isNew m d)) =
     (if validate_order d \<and> m \<and> o_orderStatus d = ''Processing''
      then bulkWrite (o_orderItems d) (products s) else products s)"
  by (auto simp: save_order_def validate_order_def Let_def split: option.splits)


lemma inc_stock_apply:
  "inc_stock ps it pid =
     (if oi_product it = pid
      then map_option (\<lambda>p. p\<lparr>p_stock := p_stock p - oi_quantity it\<rparr>) (ps pid)
      else ps pid)"
  by (auto simp: inc_stock_def split: option.splits)

lemma bulkWrite_apply:
  "bulkWrite items ps pid =
     map_option
       (\<lambda>p. p\<lparr>p_stock := p_stock p -
                 (\<Sum>it\<leftarrow>filter (\<lambda>it. oi_product it = pid) items. oi_quantity it)\<rparr>)
       (ps pid)"
  unfolding bulkWrite_def
proof (induction items arbitrary: ps)
  case Nil
  show ?case by (cases "ps pid") simp_all
next
  case (Cons it items)
  have "foldl inc_stock ps (it # items) pid = foldl inc_stock (inc_stock ps it) items pid"
    by simp
  also have "\<dots> = map_option
       (\<lambda>p. p\<lparr>p_stock := p_stock p -
                 (\<Sum>it\<leftarrow>filter (\<lambda>it. oi_product it = pid) items. oi_quantity it)\<rparr>)
       (inc_stock ps it pid)"
    by (rule Cons.IH)
  also have "\<dots> = map_option
       (\<lambda>p. p\<lparr>p_stock := p_stock p -
                 (\<Sum>it\<leftarrow>filter (\<lambda>it. oi_product it = pid) (it # items). oi_quantity it)\<rparr>)
       (ps pid)"
    by (cases "ps pid") (simp_all add: inc_stock_apply algebra_simps)
  finally show ?case .
qed

text \<open>
  A loaded order never carries \<open>shippingAddress\<close>, so \<open>updateOrderToDelivered\<close> throws
  at \<open>order.shippingAddress.city\<close> whenever it finds the order, and saves nothing.
\<close>

lemma updateOrderToDelivered_fails: "\<exists>err. updateOrderToDelivered e s i = (s, Inl err)"
  by (auto simp: updateOrderToDelivered_def findById_def schema_paths_def Let_def
      split: option.splits)

lemma ex_find: "findById ex_store ''o1'' = Some ex_order"
  by (simp add: findById_def schema_paths_def ex_defs)

lemma ex_valid: "validate_order ex_order"
  by (simp add: validate_defs ex_defs)

lemma ex_paid:
  "updateOrderToPaid ex_env ex_store ex_user ''o1'' ex_pay_body =
     (ex_store\<lparr>orders := [schema_paths ex_order_paid]\<rparr>, Inr ex_order_paid)"
  by (simp add: updateOrderToPaid_def ex_find)
    (simp add: save_order_def persist_def str_or_def validate_defs ex_defs Let_def)





text \<open>
  C7. \<open>updateOrderToPaid\<close> on the stored order, called by its owner with a complete
  confirmation record: the returned document has \<open>isPaid\<close> true and \<open>paidAt\<close> at the
  current time, and one tracking update is prepended; the confirmation record sits in
  \<open>paymentResult\<close>, while \<open>paymentInfo\<close> is unset in the returned document and in the
  stored one.
\<close>

theorem updateOrderToPaid_leaves_paymentInfo_unset:
  "snd (updateOrderToPaid ex_env ex_store ex_user ''o1'' ex_pay_body) = Inr ex_order_paid \<and>
   o_isPaid ex_order_paid \<and> o_paidAt ex_order_paid = Some (e_now ex_env) \<and>
   o_trackingUpdates ex_order_paid = ex_paid_entry # o_trackingUpdates ex_order \<and>
   x_paymentResult ex_order_paid =
     Some \<lparr>pi_id = ''PAYMENT_ID_123'', pi_status = ''COMPLETED'',
           pi_update_time = ''2023-01-01T00:00:00.000Z'',
           pi_email_address = ''test@example.com''\<rparr> \<and>
   o_paymentInfo ex_order_paid = None \<and>
   map_option o_paymentInfo
     (findById (fst (updateOrderToPaid ex_env ex_store ex_user ''o1'' ex_pay_body)) ''o1'')
     = Some None"
  by (simp add: ex_paid) (simp add: findById_def schema_paths_def ex_defs)

lemma validate_order_status:
  "validate_order order \<Longrightarrow> validate_order (order\<lparr>o_orderStatus := ''Processing''\<rparr>)"
  by (simp add: validate_order_def enum_defs)

lemma updateOrderStatus_products:
  "products (fst (updateOrderStatus e s i body)) =
     (case sb_status body of
        None \<Rightarrow> products s
      | Some status \<Rightarrow>
          (case findById s i of
             None \<Rightarrow> products s
           | Some order \<Rightarrow>
               if status = ''Processing'' \<and> o_orderStatus order \<noteq> ''Processing'' \<and>
                  validate_order (order\<lparr>o_orderStatus := ''Processing''\<rparr>)
               then bulkWrite (o_orderItems order) (products s)
               else products s))"
proof (cases "sb_status body")
  case None
  then show ?thesis by (simp add: updateOrderStatus_def)
next
  case (Some status)
  show ?thesis
  proof (cases "findById s i")
    case None
    with Some show ?thesis by (simp add: updateOrderStatus_def)
  next
    case (Some order)
    let ?o2 = "(case sb_trackingNumber body of None \<Rightarrow> order\<lparr>o_orderStatus := status\<rparr>
             | Some n \<Rightarrow> if n = [] then order\<lparr>o_orderStatus := status\<rparr>
                         else order\<lparr>o_orderStatus := status, o_trackingNumber := n\<rparr>)"
    let ?d = "?o2\<lparr>o_trackingUpdates :=
                 \<lparr>t_date = e_now e, t_status = status,
                   t_location = str_or (sb_location body) ''Processing Center'',
                   t_details = str_or (sb_details body) (''Order status updated to '' @ status)\<rparr>
                 # o_trackingUpdates ?o2\<rparr>"
    have f: "o_orderStatus ?d = status" "o_orderItems ?d = o_orderItems order"
      by (auto split: option.splits)
    have v: "validate_order ?d = validate_order (order\<lparr>o_orderStatus := ''Processing''\<rparr>)"
      if "status = ''Processing''"
      using that
      by (auto simp: validate_order_def validate_tracking_update_def enum_defs str_or_def
          split: option.splits)
    show ?thesis
    proof (cases "status = []")
      case True
      with Some \<open>sb_status body = Some status\<close> show ?thesis
        by (simp add: updateOrderStatus_def)
    next
      case False
      with Some \<open>sb_status body = Some status\<close>
      have "updateOrderStatus e s i body =
              save_order e s False (status \<noteq> o_orderStatus order) ?d"
        by (simp add: updateOrderStatus_def Let_def)
      with Some \<open>sb_status body = Some status\<close> f v show ?thesis
        by (auto simp: save_order_products)
    qed
  qed
qed

text \<open>
  C10. \<open>updateOrderStatus\<close> leaves every product as it is unless the new status is
  \<open>'Processing'\<close>. When it sets a stored, valid order that is not in \<open>'Processing'\<close>
  back to \<open>'Processing'\<close>, and whenever a validated save finds \<open>orderStatus\<close> modified
  and equal to \<open>'Processing'\<close>, the products after the call are those of the bulk write
  over the order's items, whether or not the save then completes. The bulk write takes
  from the stock of each product the quantities of all order items that reference it and
  changes nothing else; nothing limits how often this happens for one order.
\<close>

theorem stock_changes_only_on_Processing:
  "(sb_status body \<noteq> Some ''Processing'' \<longrightarrow>
      products (fst (updateOrderStatus e s i body)) = products s) \<and>
   (findById s i = Some order \<longrightarrow> validate_order order \<longrightarrow>
    o_orderStatus order \<noteq> ''Processing'' \<longrightarrow> sb_status body = Some ''Processing'' \<longrightarrow>
      products (fst (updateOrderStatus e s i body)) = bulkWrite (o_orderItems order) (products s)) \<and>
   (validate_order d \<longrightarrow> o_orderStatus d = ''Processing'' \<longrightarrow>
      products (fst (save_order e s isNew True d)) = bulkWrite (o_orderItems d) (products s)) \<and>
   bulkWrite items ps pid =
     map_option
       (\<lambda>p. p\<lparr>p_stock := p_stock p -
                 (\<Sum>it\<leftarrow>filter (\<lambda>it. oi_product it = pid) items. oi_quantity it)\<rparr>)
       (ps pid)"
  by (auto simp: updateOrderStatus_products save_order_products bulkWrite_apply
      validate_order_status split: option.splits)

theorem stock_changes_only_on_Processing_witness:
  "sb_status (ex_status_body ''Delivered'') \<noteq> Some ''Processing'' \<and>
   products (fst (updateOrderStatus ex_env ex_store ''o1'' (ex_status_body ''Delivered''))) =
     products ex_store \<and>
   findById ex_store ''o1'' = Some ex_order \<and> validate_order ex_order \<and>
   o_orderStatus ex_order \<noteq> ''Processing'' \<and>
   sb_status (ex_status_body ''Processing'') = Some ''Processing'' \<and>
   map_option p_stock (products ex_store ''A'') = Some 5 \<and>
   map_option p_stock
     (products (fst (updateOrderStatus ex_env ex_store ''o1'' (ex_status_body ''Processing''))) ''A'')
     = Some 2 \<and>
   map_option p_stock (products ex_store_twice ''A'') = Some (- 1)"
proof -
  have a: "sb_status (ex_status_body ''Delivered'') \<noteq> Some ''Processing''"
    and b: "sb_status (ex_status_body ''Processing'') = Some ''Processing''"
    by (simp_all add: ex_status_body_def)
  have c: "o_orderStatus ex_order \<noteq> ''Processing''"
    by (simp add: ex_order_def)
  have p: "map_option p_stock (products ex_store ''A'') = Some 5"
    by (simp add: ex_store_def ex_products_def)
  have tw: "map_option p_stock (products ex_store_twice ''A'') = Some (- 1)"
    unfolding ex_store_twice_def
    by (simp add: updateOrderStatus_def findById_def schema_paths_def save_order_def persist_def
        bulkWrite_def inc_stock_def str_or_def validate_defs ex_defs Let_def)
  note t = stock_changes_only_on_Processing[where e = ex_env and s = ex_store and i = "''o1''"
      and order = ex_order and d = ex_order and isNew = False
      and items = "o_orderItems ex_order" and ps = "products ex_store" and pid = "''A''"]
  from t[where body = "ex_status_body ''Delivered''"] a
  have t1: "products (fst (updateOrderStatus ex_env ex_store ''o1'' (ex_status_body ''Delivered'')))
            = products ex_store"
    by simp
  from t[where body = "ex_status_body ''Processing''"] b c ex_find ex_valid
  have t2: "products (fst (updateOrderStatus ex_env ex_store ''o1'' (ex_status_body ''Processing'')))
            ''A'' = map_option
       (\<lambda>p. p\<lparr>p_stock := p_stock p -
                 (\<Sum>it\<leftarrow>filter (\<lambda>it. oi_product it = ''A'') (o_orderItems ex_order).
                    oi_quantity it)\<rparr>)
       (products ex_store ''A'')"
    by simp
  have "map_option p_stock
     (products (fst (updateOrderStatus ex_env ex_store ''o1'' (ex_status_body ''Processing''))) ''A'')
     = Some 2"
    unfolding t2 by (simp add: ex_store_def ex_products_def ex_order_def)
  with t1 a b c p tw ex_find ex_valid show ?thesis
    by simp
qed

end
